theory Spec2Isabelle
  imports Complex_Main
begin

section \<open>Python values, exceptions and the external libraries\<close>

text \<open>
  The program is \<^verbatim>\<open>simulateChemicals.py\<close>: the class \<^verbatim>\<open>ODESystemSimulator\<close> with the
  methods \<^verbatim>\<open>getOutput\<close>, \<^verbatim>\<open>concentrations\<close> and \<^verbatim>\<open>trajectories\<close>, and the vector field
  \<^verbatim>\<open>dX_dt\<close>. Python floats are modelled as \<open>real\<close> (rounding is not modelled), Python
  ints as \<open>int\<close>, lists and one-dimensional arrays as lists, two-dimensional arrays as
  lists of rows. An exception is the \<open>Inl\<close> of a sum.
\<close>

datatype py_error = TypeError | ValueError | IndexError | OtherError string

definition and_then :: "py_error + 'a \<Rightarrow> ('a \<Rightarrow> py_error + 'b) \<Rightarrow> py_error + 'b" where
  "and_then m k = (case m of Inl e \<Rightarrow> Inl e | Inr x \<Rightarrow> k x)"

fun map_err :: "('a \<Rightarrow> py_error + 'b) \<Rightarrow> 'a list \<Rightarrow> py_error + 'b list" where
  "map_err f [] = Inr []"
| "map_err f (x # xs) =
     (case f x of
        Inl e \<Rightarrow> Inl e
      | Inr y \<Rightarrow> (case map_err f xs of Inl e \<Rightarrow> Inl e | Inr ys \<Rightarrow> Inr (y # ys)))"

text \<open>
  The operands of the \<^verbatim>\<open>+\<close> in the diagnostic of \<^verbatim>\<open>getOutput\<close> are a string, a list and
  an int. Python's \<^verbatim>\<open>+\<close> concatenates two strings or two lists, adds two ints, and
  raises \<^verbatim>\<open>TypeError\<close> on every mixed pair of these.
\<close>

datatype pyval = PStr string | PList "real list" | PInt int

fun py_add :: "pyval \<Rightarrow> pyval \<Rightarrow> py_error + pyval" where
  "py_add (PStr a) (PStr b) = Inr (PStr (a @ b))"
| "py_add (PList a) (PList b) = Inr (PList (a @ b))"
| "py_add (PInt a) (PInt b) = Inr (PInt (a + b))"
| "py_add _ _ = Inl TypeError"

definition py_index :: "'a list \<Rightarrow> int \<Rightarrow> py_error + 'a" where
  \<comment> \<open>\<^verbatim>\<open>xs[i]\<close>: a negative index counts from the end, an index out of range raises.\<close>
  "py_index xs i =
     (if 0 \<le> i \<and> i < int (length xs) then Inr (xs ! nat i)
      else if i < 0 \<and> - int (length xs) \<le> i then Inr (xs ! nat (int (length xs) + i))
      else Inl IndexError)"

text \<open>
  A vector field is a Python function \<^verbatim>\<open>f(inputs, t)\<close> or \<^verbatim>\<open>f(inputs, t=d)\<close> that
  computes some values from \<^verbatim>\<open>inputs\<close> and \<^verbatim>\<open>t\<close> by arithmetic and returns a list whose
  items are values it computed or items of \<^verbatim>\<open>inputs\<close>. \<open>t_default\<close> is the default of
  the second parameter (\<open>None\<close> when \<^verbatim>\<open>t\<close> is required), \<open>created\<close> the values it
  computes, in order (it may raise), and \<open>returned\<close> says for each item of the result which
  of them it is. Called by the solver, \<^verbatim>\<open>inputs\<close> is a state and the values are numbers.
  Called by \<^verbatim>\<open>trajectories\<close>, \<^verbatim>\<open>inputs\<close> is a pair of arrays and every value computed is
  a new array; there it matters which items of the result are one and the same object,
  since \<^verbatim>\<open>trajectories\<close> divides them in place. An item that is written as a constant
  is a number there too, and no array.
\<close>

datatype origin = Created nat | Argument nat | Constant real

record vfield =
  t_default :: "real option"
  created :: "real list \<Rightarrow> real \<Rightarrow> py_error + real list"
  returned :: "origin list"

fun resolve :: "real list \<Rightarrow> real list \<Rightarrow> origin \<Rightarrow> py_error + real" where
  \<comment> \<open>an item of the result: a local name (unbound: \<^verbatim>\<open>NameError\<close>) or \<^verbatim>\<open>inputs[k]\<close>\<close>
  "resolve c inputs (Created k) =
     (if k < length c then Inr (c ! k) else Inl (OtherError ''NameError''))"
| "resolve c inputs (Argument k) = py_index inputs (int k)"
| "resolve c inputs (Constant v) = Inr v"

definition body :: "vfield \<Rightarrow> real list \<Rightarrow> real \<Rightarrow> py_error + real list" where
  \<comment> \<open>the list \<^verbatim>\<open>f(inputs, t)\<close> returns\<close>
  "body f inputs t =
     (case created f inputs t of
        Inl e \<Rightarrow> Inl e
      | Inr c \<Rightarrow> map_err (resolve c inputs) (returned f))"

text \<open>
  \<^verbatim>\<open>scipy.integrate.odeint\<close> is an external solver: a parameter of the model. It takes the
  vector field, the initial state and the time grid, may raise, and may read and change a
  state \<open>'h\<close> of its own (its work arrays, the warnings it has emitted), which the program
  never sees. The axis limits that \<^verbatim>\<open>pylab\<close> computes from what has been drawn are
  parameters too.
\<close>

datatype label = VarLabel int | ICLabel real real

datatype plot_cmd =
    Figure
  | Plot "real list" "real list" "real option" label
  | Title string
  | XLabelText string
  | YLabelText string
  | XLabelVar int
  | YLabelVar int
  | Legend
  | GridOn
  | YLimBottom real
  | XLimLeft real
  | XLim real real
  | YLim real real
  | Quiver "real list list" "real list list" "real list list" "real list list" "real list list"
  | Show

type_synonym 'h integrator =
  "vfield \<Rightarrow> real list \<Rightarrow> real list \<Rightarrow> 'h \<Rightarrow> (py_error + real list list) \<times> 'h"

record 'h pylib =
  odeint :: "'h integrator"
  ylim_top :: "plot_cmd list \<Rightarrow> real"
  xlim_top :: "plot_cmd list \<Rightarrow> real"

section \<open>The simulator object and the program state\<close>

record simulator =
  systemFunction :: vfield
  systemSize :: int

text \<open>
  The state a method runs in: the object \<^verbatim>\<open>self\<close>, what has been printed, what has been
  drawn, and the solver's own state. A method returns its result (or the exception) and
  the state it leaves.
\<close>

record 'h pstate =
  self :: simulator
  stdout :: "pyval list"
  canvas :: "plot_cmd list"
  solver :: 'h

definition ODESystemSimulator :: "vfield \<Rightarrow> int \<Rightarrow> simulator" where
  \<comment> \<open>\<^verbatim>\<open>__init__\<close>\<close>
  "ODESystemSimulator function numVariables =
     \<lparr>systemFunction = function, systemSize = numVariables\<rparr>"

definition new_state :: "simulator \<Rightarrow> 'h \<Rightarrow> 'h pstate" where
  "new_state obj h = \<lparr>self = obj, stdout = [], canvas = [], solver = h\<rparr>"

section \<open>getOutput\<close>

definition diagnostic :: "real list \<Rightarrow> int \<Rightarrow> py_error + pyval" where
  \<comment> \<open>the argument of \<^verbatim>\<open>print\<close>, evaluated left to right\<close>
  "diagnostic initialConditions n =
     and_then (py_add (PStr ''Inputed '') (PList initialConditions)) (\<lambda>a.
     and_then (py_add a (PStr '' initial conditions but there is only '')) (\<lambda>b.
     py_add b (PInt n)))"

definition getOutput ::
  "'h pylib \<Rightarrow> real list \<Rightarrow> real list \<Rightarrow> 'h pstate \<Rightarrow> (py_error + real list list) \<times> 'h pstate" where
  "getOutput L initialConditions t s =
     (case (if int (length initialConditions) \<noteq> systemSize (self s)
            then (case diagnostic initialConditions (systemSize (self s)) of
                    Inl e \<Rightarrow> Inl e
                  | Inr msg \<Rightarrow> Inr (s\<lparr>stdout := stdout s @ [msg]\<rparr>))
            else Inr s) of
        Inl e \<Rightarrow> (Inl e, s)
      | Inr s1 \<Rightarrow>
          (case odeint L (systemFunction (self s1)) initialConditions t (solver s1) of
             (X, h) \<Rightarrow> (X, s1\<lparr>solver := h\<rparr>)))"

section \<open>The vector field of the script\<close>

definition dX_dt_body :: "real list \<Rightarrow> real \<Rightarrow> py_error + real list" where
  "dX_dt_body inputs t =
     and_then (py_index inputs 0) (\<lambda>X.
     and_then (py_index inputs 1) (\<lambda>Y.
     Inr [1 + 0.02 * X\<^sup>2 * Y - 2 * X - 0.04 * X, 2 * X - 0.02 * X\<^sup>2 * Y]))"

definition dX_dt :: vfield where
  \<comment> \<open>\<^verbatim>\<open>return [dX_dt, dY_dt]\<close>: the two values computed, each an object of its own\<close>
  "dX_dt = \<lparr>t_default = Some 0, created = dX_dt_body, returned = [Created 0, Created 1]\<rparr>"

section \<open>numpy: linspace, meshgrid, hypot, column selection\<close>

definition linspace_points :: "real \<Rightarrow> real \<Rightarrow> nat \<Rightarrow> real list" where
  \<comment> \<open>\<open>n\<close> samples, the first \<open>start\<close>, the last \<open>stop\<close>, the step \<open>(stop - start) / (n - 1)\<close>\<close>
  "linspace_points start stop n =
     (if n = 1 then [start]
      else map (\<lambda>i. start + real i * ((stop - start) / real (n - 1))) [0..<n])"

definition linspace :: "real \<Rightarrow> real \<Rightarrow> int \<Rightarrow> py_error + real list" where
  \<comment> \<open>\<^verbatim>\<open>linspace(start, stop, num)\<close>; a negative \<^verbatim>\<open>num\<close> raises \<^verbatim>\<open>ValueError\<close>\<close>
  "linspace start stop num =
     (if num < 0 then Inl ValueError else Inr (linspace_points start stop (nat num)))"

definition meshgrid :: "real list \<Rightarrow> real list \<Rightarrow> real list list \<times> real list list" where
  \<comment> \<open>\<^verbatim>\<open>X, Y = meshgrid(x, y)\<close>: both of shape \<open>(len y, len x)\<close>, \<open>X[i][j] = x[j]\<close>, \<open>Y[i][j] = y[i]\<close>\<close>
  "meshgrid x y = (replicate (length y) x, map (\<lambda>yi. replicate (length x) yi) y)"

definition hypot :: "real \<Rightarrow> real \<Rightarrow> real" where
  "hypot a b = sqrt (a\<^sup>2 + b\<^sup>2)"

definition column :: "real list list \<Rightarrow> int \<Rightarrow> py_error + real list" where
  \<comment> \<open>\<^verbatim>\<open>X[:, k]\<close>\<close>
  "column X k = map_err (\<lambda>row. py_index row k) X"

definition grid_map2 :: "(real \<Rightarrow> real \<Rightarrow> real) \<Rightarrow> real list list \<Rightarrow> real list list \<Rightarrow> real list list" where
  \<comment> \<open>an elementwise operation on two arrays of the same shape\<close>
  "grid_map2 f A B = map2 (map2 f) A B"

section \<open>concentrations\<close>

fun plot_variables :: "real list \<Rightarrow> real list list \<Rightarrow> int list \<Rightarrow> 'h pstate \<Rightarrow> (py_error + unit) \<times> 'h pstate" where
  \<comment> \<open>\<^verbatim>\<open>for Xnum in Xs: p.plot(t, X[:, Xnum], ...)\<close>\<close>
  "plot_variables t X [] s = (Inr (), s)"
| "plot_variables t X (Xnum # Xs) s =
     (case column X Xnum of
        Inl e \<Rightarrow> (Inl e, s)
      | Inr c \<Rightarrow> plot_variables t X Xs (s\<lparr>canvas := canvas s @ [Plot t c None (VarLabel Xnum)]\<rparr>))"

definition concentrations_plot ::
  "real list \<Rightarrow> int list \<Rightarrow> (py_error + real list list) \<times> 'h pstate \<Rightarrow> (py_error + unit) \<times> 'h pstate" where
  \<comment> \<open>what \<^verbatim>\<open>concentrations\<close> does with the outcome of its call of \<^verbatim>\<open>getOutput\<close>\<close>
  "concentrations_plot t Xs r =
     (case r of
        (Inl e, s1) \<Rightarrow> (Inl e, s1)
      | (Inr X, s1) \<Rightarrow>
          (case plot_variables t X Xs (s1\<lparr>canvas := canvas s1 @ [Figure]\<rparr>) of
             (Inl e, s2) \<Rightarrow> (Inl e, s2)
           | (Inr u, s2) \<Rightarrow>
               (Inr (), s2\<lparr>canvas := canvas s2 @
                  [Title ''System Concentrations over time'', XLabelText ''Time, $t$'',
                   YLabelText ''Variable Concentrations'', Legend, Show]\<rparr>)))"

definition concentrations ::
  "'h pylib \<Rightarrow> real \<Rightarrow> int list \<Rightarrow> 'h pstate \<Rightarrow> (py_error + unit) \<times> 'h pstate" where
  "concentrations L endTime Xs s =
     (case linspace 0 endTime 100000 of
        Inl e \<Rightarrow> (Inl e, s)
      | Inr t \<Rightarrow>
          concentrations_plot t Xs
            (getOutput L (replicate (nat (systemSize (self s))) 0) t s))"

section \<open>trajectories\<close>

fun plot_family ::
  "'h pylib \<Rightarrow> real list \<Rightarrow> int \<Rightarrow> int \<Rightarrow> real \<Rightarrow> real list list \<Rightarrow> 'h pstate
     \<Rightarrow> (py_error + unit) \<times> 'h pstate" where
  \<comment> \<open>the loop over \<^verbatim>\<open>listInitialConditions\<close>\<close>
  "plot_family L t X1 X2 lineThickness [] s = (Inr (), s)"
| "plot_family L t X1 X2 lineThickness (initialConditions # rest) s =
     (case getOutput L initialConditions t s of
        (Inl e, s1) \<Rightarrow> (Inl e, s1)
      | (Inr X, s1) \<Rightarrow>
          (case and_then (column X X1) (\<lambda>c1.
                and_then (column X X2) (\<lambda>c2.
                and_then (py_index initialConditions X1) (\<lambda>a.
                and_then (py_index initialConditions X2) (\<lambda>b.
                Inr (Plot c1 c2 (Some (lineThickness / 1.5)) (ICLabel a b)))))) of
             Inl e \<Rightarrow> (Inl e, s1)
           | Inr cmd \<Rightarrow>
               plot_family L t X1 X2 (lineThickness / 1.5) rest
                 (s1\<lparr>canvas := canvas s1 @ [cmd]\<rparr>)))"

text \<open>
  The arrays of the second half of \<^verbatim>\<open>trajectories\<close> are objects that the program
  changes in place, so they live in a store: the two grids, the arrays the vector field
  creates, and the array of norms. A variable that holds a number (\<^verbatim>\<open>DX\<close> is variable 0,
  \<^verbatim>\<open>DY\<close> variable 1) has a cell of its own, which holds the number at every grid point as
  broadcasting gives it: \<^verbatim>\<open>DX /= M\<close> on a number binds the variable to a new array.
\<close>

datatype array_ref = GridX | GridY | Local nat | Number nat | Norm

type_synonym arrays = "array_ref \<Rightarrow> real list list"

text \<open>
  \<^verbatim>\<open>DX, DY = self.__systemFunction([X, Y])\<close>: the stored function is called with one
  argument, the list of the two grids. numpy evaluates the arithmetic of a vector field
  elementwise, so the values are those of the call at every grid point \<open>[x, y]\<close>, with
  the default for \<^verbatim>\<open>t\<close>; the unpacking into \<^verbatim>\<open>DX, DY\<close> raises \<^verbatim>\<open>ValueError\<close> unless
  there are exactly two items. An item that is \<^verbatim>\<open>inputs[0]\<close> or \<^verbatim>\<open>inputs[1]\<close> is the
  grid itself; an item that is a value computed is the new array of that value, the same
  array when both items are the same value. The function runs once whatever the grid is:
  on a grid with no point (\<^verbatim>\<open>samplingPoints = 0\<close>) it still raises what it raises, and
  since the exceptions of elementwise arithmetic do not depend on the values, that is
  taken from a run at the origin.
\<close>

definition eval_point :: "vfield \<Rightarrow> real \<Rightarrow> real \<times> real \<Rightarrow> py_error + real \<times> real" where
  "eval_point f t0 p =
     (case body f [fst p, snd p] t0 of
        Inl e \<Rightarrow> Inl e
      | Inr d \<Rightarrow> (case d of [dx, dy] \<Rightarrow> Inr (dx, dy) | _ \<Rightarrow> Inl ValueError))"

fun component_ref :: "nat \<Rightarrow> origin \<Rightarrow> py_error + array_ref" where
  \<comment> \<open>what the variable \<open>p\<close> is bound to by the unpacking\<close>
  "component_ref p (Created k) = Inr (Local k)"
| "component_ref p (Argument k) =
     (if k = 0 then Inr GridX else if k = 1 then Inr GridY else Inl IndexError)"
| "component_ref p (Constant v) = Inr (Number p)"

fun bind_created :: "array_ref \<Rightarrow> real list list \<Rightarrow> arrays \<Rightarrow> arrays" where
  \<comment> \<open>a new array gets its values; a grid that is returned as it is keeps its own\<close>
  "bind_created (Local k) v A = A(Local k := v)"
| "bind_created (Number p) v A = A(Number p := v)"
| "bind_created r v A = A"

definition grid_points :: "arrays \<Rightarrow> (real \<times> real) list" where
  "grid_points A = concat (map (\<lambda>row. zip (fst row) (snd row)) (zip (A GridX) (A GridY)))"

definition run_on_empty_grid :: "vfield \<Rightarrow> real \<Rightarrow> arrays \<Rightarrow> py_error + unit" where
  "run_on_empty_grid f t0 A =
     (if grid_points A = []
      then (case eval_point f t0 (0, 0) of Inl e \<Rightarrow> Inl e | Inr d \<Rightarrow> Inr ())
      else Inr ())"

definition call_on_grid :: "vfield \<Rightarrow> arrays \<Rightarrow> py_error + array_ref \<times> array_ref \<times> arrays" where
  "call_on_grid f A =
     (case t_default f of
        None \<Rightarrow> Inl TypeError
      | Some t0 \<Rightarrow>
          (case run_on_empty_grid f t0 A of
             Inl e \<Rightarrow> Inl e
           | Inr u \<Rightarrow>
          (case map_err (\<lambda>row. map_err (eval_point f t0) (zip (fst row) (snd row)))
                  (zip (A GridX) (A GridY)) of
             Inl e \<Rightarrow> Inl e
           | Inr D \<Rightarrow>
               (case returned f of
                  [o1, o2] \<Rightarrow>
                    (case component_ref 0 o1 of
                       Inl e \<Rightarrow> Inl e
                     | Inr DX \<Rightarrow>
                         (case component_ref 1 o2 of
                            Inl e \<Rightarrow> Inl e
                          | Inr DY \<Rightarrow>
                              Inr (DX, DY,
                                   bind_created DY (map (map snd) D)
                                     (bind_created DX (map (map fst) D) A))))
                | _ \<Rightarrow> Inl ValueError))))"

definition direction_field :: "array_ref \<Rightarrow> array_ref \<Rightarrow> arrays \<Rightarrow> arrays" where
  \<comment> \<open>\<^verbatim>\<open>M = hypot(DX, DY); M[M == 0] = 1.; DX /= M; DY /= M\<close>, each on the array named\<close>
  "direction_field DX DY A =
     (let A1 = A(Norm := grid_map2 hypot (A DX) (A DY));
          A2 = A1(Norm := map (map (\<lambda>m. if m = 0 then 1 else m)) (A1 Norm));
          A3 = A2(DX := grid_map2 (/) (A2 DX) (A2 Norm));
          A4 = A3(DY := grid_map2 (/) (A3 DY) (A3 Norm))
      in A4)"

text \<open>
  When \<^verbatim>\<open>DX\<close> and \<^verbatim>\<open>DY\<close> are both numbers, \<^verbatim>\<open>M = hypot(DX, DY)\<close> is a number too, and
  \<^verbatim>\<open>M[M == 0] = 1.\<close> raises \<^verbatim>\<open>TypeError\<close>: a number has no item assignment.
\<close>

fun is_number :: "array_ref \<Rightarrow> bool" where
  "is_number (Number p) = True"
| "is_number r = False"

definition normalise :: "array_ref \<Rightarrow> array_ref \<Rightarrow> arrays \<Rightarrow> py_error + arrays" where
  "normalise DX DY A =
     (if is_number DX \<and> is_number DY then Inl TypeError else Inr (direction_field DX DY A))"

definition draw_directions ::
  "'h pylib \<Rightarrow> int \<Rightarrow> int \<Rightarrow> int \<Rightarrow> 'h pstate \<Rightarrow> (py_error + unit) \<times> 'h pstate" where
  \<comment> \<open>\<^verbatim>\<open>trajectories\<close> from \<^verbatim>\<open>ymax = p.ylim(ymin=0)[1]\<close> on\<close>
  "draw_directions L samplingPoints X1 X2 s =
     (let s1 = s\<lparr>canvas := canvas s @ [YLimBottom 0]\<rparr>;
          ymax = ylim_top L (canvas s1);
          s2 = s1\<lparr>canvas := canvas s1 @ [XLimLeft 0]\<rparr>;
          xmax = xlim_top L (canvas s2)
      in case linspace 0 xmax samplingPoints of
           Inl e \<Rightarrow> (Inl e, s2)
         | Inr x \<Rightarrow>
        (case linspace 0 ymax samplingPoints of
           Inl e \<Rightarrow> (Inl e, s2)
         | Inr y \<Rightarrow>
        (case call_on_grid (systemFunction (self s2))
                ((\<lambda>r. [])(GridX := fst (meshgrid x y), GridY := snd (meshgrid x y))) of
           Inl e \<Rightarrow> (Inl e, s2)
         | Inr (DX, DY, A) \<Rightarrow>
        (case normalise DX DY A of
           Inl e \<Rightarrow> (Inl e, s2)
         | Inr A' \<Rightarrow>
           (Inr (), s2\<lparr>canvas := canvas s2 @
              [Title ''Trajectories and Directions'',
               Quiver (A' GridX) (A' GridY) (A' DX) (A' DY) (A' Norm),
               XLabelVar X1, YLabelVar X2, Legend, GridOn,
               XLim 0 xmax, YLim 0 ymax, Show]\<rparr>)))))"

definition trajectories ::
  "'h pylib \<Rightarrow> real list list \<Rightarrow> int \<Rightarrow> real \<Rightarrow> int \<Rightarrow> int \<Rightarrow> 'h pstate
     \<Rightarrow> (py_error + unit) \<times> 'h pstate" where
  "trajectories L listInitialConditions samplingPoints endTime X1 X2 s =
     (let s0 = s\<lparr>canvas := canvas s @ [Figure]\<rparr> in
      case linspace 0 endTime 100000 of
        Inl e \<Rightarrow> (Inl e, s0)
      | Inr t \<Rightarrow>
          (case plot_family L t X1 X2 (1.5 ^ length listInitialConditions)
                  listInitialConditions s0 of
             (Inl e, s1) \<Rightarrow> (Inl e, s1)
           | (Inr u, s1) \<Rightarrow> draw_directions L samplingPoints X1 X2 s1))"

section \<open>The solver's contract, reference solvers, sequences of calls\<close>

text \<open>
  What the program relies on from \<^verbatim>\<open>odeint\<close>: a table it returns has one row per
  requested time and one column per component of the initial state; its first row is the
  initial state; its result does not depend on the solver's own state.
\<close>

definition shape_contract :: "'h integrator \<Rightarrow> bool" where
  "shape_contract integ \<longleftrightarrow>
     (\<forall>f y0 t h X h'. integ f y0 t h = (Inr X, h') \<longrightarrow>
        length X = length t \<and> (\<forall>row \<in> set X. length row = length y0))"

definition initial_row_contract :: "'h integrator \<Rightarrow> bool" where
  "initial_row_contract integ \<longleftrightarrow>
     (\<forall>f y0 t h X h'. integ f y0 t h = (Inr X, h') \<longrightarrow> t \<noteq> [] \<longrightarrow> X \<noteq> [] \<and> X ! 0 = y0)"

definition deterministic :: "'h integrator \<Rightarrow> bool" where
  "deterministic integ \<longleftrightarrow> (\<forall>f y0 t h1 h2. fst (integ f y0 t h1) = fst (integ f y0 t h2))"

text \<open>
  A solver to run the program with: the explicit Euler method on the requested grid. It
  calls the vector field with two arguments, as \<^verbatim>\<open>odeint\<close> does, and its own state counts
  its invocations.
\<close>

fun euler_rows :: "vfield \<Rightarrow> real list \<Rightarrow> real \<Rightarrow> real list \<Rightarrow> py_error + real list list" where
  "euler_rows f y t [] = Inr [y]"
| "euler_rows f y t (t' # ts) =
     (case body f y t of
        Inl e \<Rightarrow> Inl e
      | Inr d \<Rightarrow>
          if length d \<noteq> length y then Inl (OtherError ''RuntimeError'')
          else (case euler_rows f (map2 (\<lambda>yi di. yi + (t' - t) * di) y d) t' ts of
                  Inl e \<Rightarrow> Inl e
                | Inr rows \<Rightarrow> Inr (y # rows)))"

definition euler_odeint :: "nat integrator" where
  "euler_odeint f y0 t calls =
     (case t of
        [] \<Rightarrow> (Inl ValueError, Suc calls)
      | t0 # ts \<Rightarrow> (euler_rows f y0 t0 ts, Suc calls))"

text \<open>
  A solver that gives up after the initial row: it leaves the other rows filled with
  zeros and reports the failure as a warning in its own state, without raising.
\<close>

definition giving_up_odeint :: "string list integrator" where
  "giving_up_odeint f y0 t warnings =
     (Inr (y0 # replicate (length t - 1) (replicate (length y0) 0)),
      warnings @ [''ODEintWarning: Excess work done on this call''])"

definition stub_lib :: "'h integrator \<Rightarrow> 'h pylib" where
  \<comment> \<open>the libraries with a given solver and axes that always end at 1\<close>
  "stub_lib integ = \<lparr>odeint = integ, ylim_top = (\<lambda>c. 1), xlim_top = (\<lambda>c. 1)\<rparr>"

datatype call =
    GetOutput "real list" "real list"
  | Concentrations real "int list"
  | Trajectories "real list list" int real int int

fun perform :: "'h pylib \<Rightarrow> call \<Rightarrow> 'h pstate \<Rightarrow> 'h pstate" where
  "perform L (GetOutput initialConditions t) s = snd (getOutput L initialConditions t s)"
| "perform L (Concentrations endTime Xs) s = snd (concentrations L endTime Xs s)"
| "perform L (Trajectories ics samplingPoints endTime X1 X2) s =
     snd (trajectories L ics samplingPoints endTime X1 X2 s)"

fun perform_all :: "'h pylib \<Rightarrow> call list \<Rightarrow> 'h pstate \<Rightarrow> 'h pstate" where
  "perform_all L [] s = s"
| "perform_all L (c # cs) s = perform_all L cs (perform L c s)"

text \<open>
  The script at the end of the file: \<^verbatim>\<open>system = ODESystemSimulator(dX_dt, 2)\<close>,
  \<^verbatim>\<open>system.concentrations(200)\<close>, \<^verbatim>\<open>system.trajectories()\<close>, with the defaults of the
  parameters it leaves out. An exception of the first call ends the script.
\<close>

definition script :: "'h pylib \<Rightarrow> 'h \<Rightarrow> (py_error + unit) \<times> 'h pstate" where
  "script L h =
     (case concentrations L 200 [0, 1] (new_state (ODESystemSimulator dX_dt 2) h) of
        (Inl e, s1) \<Rightarrow> (Inl e, s1)
      | (Inr u, s1) \<Rightarrow> trajectories L [[0, 0], [8, 8], [4, 23]] 20 1000 0 1 s1)"

text \<open>The same vector field declared as \<^verbatim>\<open>def dX_dt(inputs, t)\<close>, with no default for \<^verbatim>\<open>t\<close>.\<close>

definition dX_dt_required_t :: vfield where
  "dX_dt_required_t =
     \<lparr>t_default = None, created = dX_dt_body, returned = [Created 0, Created 1]\<rparr>"

text \<open>
  A vector field that returns one array twice:
  \<^verbatim>\<open>def both(inputs, t=0): d = inputs[0] - inputs[1]; return [d, d]\<close>.
\<close>

definition both_body :: "real list \<Rightarrow> real \<Rightarrow> py_error + real list" where
  "both_body inputs t =
     and_then (py_index inputs 0) (\<lambda>X.
     and_then (py_index inputs 1) (\<lambda>Y.
     Inr [X - Y]))"

definition both :: vfield where
  "both = \<lparr>t_default = Some 0, created = both_body, returned = [Created 0, Created 0]\<rparr>"

section \<open>getOutput on the caller's list objects\<close>

text \<open>
  Python hands \<^verbatim>\<open>initialConditions\<close> and \<^verbatim>\<open>t\<close> to \<^verbatim>\<open>getOutput\<close>, and \<^verbatim>\<open>getOutput\<close>
  hands them to \<^verbatim>\<open>odeint\<close>, as references to the caller's objects: whoever holds the
  reference can write to the object. Here the objects live in a store, an argument is the
  address of its object, and the solver gets the two addresses and the store and returns
  the store as it leaves it. \<open>getOutput\<close> itself reads the object of the initial
  conditions, for \<^verbatim>\<open>len\<close> and for the diagnostic.
\<close>

record 'w world =
  objects :: "nat \<Rightarrow> real list"
  internal :: 'w

type_synonym 'w ref_integrator =
  "vfield \<Rightarrow> nat \<Rightarrow> nat \<Rightarrow> 'w world \<Rightarrow> (py_error + real list list) \<times> 'w world"

definition getOutput_refs ::
  "'w ref_integrator \<Rightarrow> nat \<Rightarrow> nat \<Rightarrow> 'w world pstate
     \<Rightarrow> (py_error + real list list) \<times> 'w world pstate" where
  "getOutput_refs R initialConditions t s =
     (case (if int (length (objects (solver s) initialConditions)) \<noteq> systemSize (self s)
            then (case diagnostic (objects (solver s) initialConditions) (systemSize (self s)) of
                    Inl e \<Rightarrow> Inl e
                  | Inr msg \<Rightarrow> Inr (s\<lparr>stdout := stdout s @ [msg]\<rparr>))
            else Inr s) of
        Inl e \<Rightarrow> (Inl e, s)
      | Inr s1 \<Rightarrow>
          (case R (systemFunction (self s1)) initialConditions t (solver s1) of
             (X, w) \<Rightarrow> (X, s1\<lparr>solver := w\<rparr>)))"

text \<open>
  What the program relies on from \<^verbatim>\<open>odeint\<close> here: it works on copies of the two lists
  and leaves the objects it was handed as they are.
\<close>

definition leaves_arguments :: "'w ref_integrator \<Rightarrow> bool" where
  "leaves_arguments R \<longleftrightarrow>
     (\<forall>f y0 t w. objects (snd (R f y0 t w)) y0 = objects w y0 \<and>
                 objects (snd (R f y0 t w)) t = objects w t)"

text \<open>
  The Euler solver on objects, which only reads them, and a solver that overwrites the
  initial state it was handed with zeros.
\<close>

definition euler_refs :: "unit ref_integrator" where
  "euler_refs f y0 t w = (fst (euler_odeint f (objects w y0) (objects w t) 0), w)"

definition overwriting_refs :: "unit ref_integrator" where
  "overwriting_refs f y0 t w =
     (Inr (map (\<lambda>x. objects w y0) (objects w t)),
      w\<lparr>objects := (objects w)(y0 := map (\<lambda>v. 0) (objects w y0))\<rparr>)"

definition two_lists :: "unit world" where
  \<comment> \<open>the list \<^verbatim>\<open>[8, 8]\<close> at address 0 and the list \<^verbatim>\<open>[0, 1]\<close> at address 1\<close>
  "two_lists = \<lparr>objects = (\<lambda>a. [])(0 := [8, 8], 1 := [0, 1]), internal = ()\<rparr>"

section \<open>Facts shared by the proofs\<close>

lemma diagnostic_TypeError: "diagnostic initialConditions n = Inl TypeError"
  by (simp add: diagnostic_def and_then_def)

lemma getOutput_match:
  "int (length initialConditions) = systemSize (self s) \<Longrightarrow>
     getOutput L initialConditions t s =
       (fst (odeint L (systemFunction (self s)) initialConditions t (solver s)),
        s\<lparr>solver := snd (odeint L (systemFunction (self s)) initialConditions t (solver s))\<rparr>)"
  by (simp add: getOutput_def split: prod.splits)

lemma getOutput_mismatch:
  "int (length initialConditions) \<noteq> systemSize (self s) \<Longrightarrow>
     getOutput L initialConditions t s = (Inl TypeError, s)"
  by (simp add: getOutput_def diagnostic_TypeError)

lemma euler_deterministic: "deterministic euler_odeint"
  by (simp add: deterministic_def euler_odeint_def split: list.splits)

lemma euler_rows_shape:
  "euler_rows f y t ts = Inr X \<Longrightarrow>
     length X = Suc (length ts) \<and> (\<forall>row \<in> set X. length row = length y)"
proof (induction ts arbitrary: y t X)
  case Nil
  then show ?case by auto
next
  case (Cons t' ts)
  then show ?case
    by (fastforce split: sum.splits if_splits)
qed

lemma euler_rows_first: "euler_rows f y t ts = Inr X \<Longrightarrow> X \<noteq> [] \<and> X ! 0 = y"
  by (cases ts) (auto split: sum.splits if_splits)

lemma euler_shape_contract: "shape_contract euler_odeint"
  unfolding shape_contract_def euler_odeint_def
  by (auto split: list.splits dest: euler_rows_shape)

lemma euler_initial_row_contract: "initial_row_contract euler_odeint"
  unfolding initial_row_contract_def euler_odeint_def
  by (auto split: list.splits dest: euler_rows_first)

lemma body_dX_dt:
  "body dX_dt [X, Y] t = Inr [1 + 0.02 * X\<^sup>2 * Y - 2 * X - 0.04 * X, 2 * X - 0.02 * X\<^sup>2 * Y]"
  by (simp add: body_def dX_dt_def dX_dt_body_def and_then_def py_index_def)

lemma body_dX_dt_required_t: "body dX_dt_required_t = body dX_dt"
  by (simp add: body_def dX_dt_required_t_def dX_dt_def fun_eq_iff split: sum.splits)

lemma body_both: "body both [X, Y] t = Inr [X - Y, X - Y]"
  by (simp add: body_def both_def both_body_def and_then_def py_index_def)

lemma euler_example:
  "euler_odeint dX_dt [0, 0] [0, 1] calls = (Inr [[0, 0], [1, 0]], Suc calls)"
  by (simp add: euler_odeint_def body_dX_dt)

lemma example_state:
  "self (new_state (ODESystemSimulator f n) h) = \<lparr>systemFunction = f, systemSize = n\<rparr>"
  "stdout (new_state (ODESystemSimulator f n) h) = []"
  "canvas (new_state (ODESystemSimulator f n) h) = []"
  "solver (new_state (ODESystemSimulator f n) h) = h"
  by (simp_all add: new_state_def ODESystemSimulator_def)

section \<open>getOutput: the shape of the result\<close>

text \<open>
  Claim C1. When the initial conditions have as many components as the system, and the
  solver returns a table for them (a table with one row per requested time and one column
  per component of the state it was given, as its contract says), \<open>getOutput\<close> returns
  that table: it has \<open>length t\<close> rows and every row has \<open>systemSize\<close> columns, whatever the
  vector field and the time grid are.
\<close>

theorem getOutput_shape:
  assumes "shape_contract (odeint L)"
    and "int (length initialConditions) = systemSize (self s)"
    and "fst (odeint L (systemFunction (self s)) initialConditions t (solver s)) = Inr X"
  shows "fst (getOutput L initialConditions t s) = Inr X \<and> length X = length t \<and>
         (\<forall>row \<in> set X. int (length row) = systemSize (self s))"
proof -
  obtain h' where run:
    "odeint L (systemFunction (self s)) initialConditions t (solver s) = (Inr X, h')"
    using assms(3)
    by (cases "odeint L (systemFunction (self s)) initialConditions t (solver s)") simp
  from assms(1) run
  have shape: "length X = length t \<and> (\<forall>row \<in> set X. length row = length initialConditions)"
    unfolding shape_contract_def by blast
  have "fst (getOutput L initialConditions t s) = Inr X"
    using assms(2) run by (simp add: getOutput_match)
  with shape assms(2) show ?thesis by simp
qed

theorem getOutput_shape_witness:
  "shape_contract euler_odeint \<and>
   fst (getOutput (stub_lib euler_odeint) [0, 0] [0, 1]
          (new_state (ODESystemSimulator dX_dt 2) 0)) = Inr [[0, 0], [1, 0]] \<and>
   length [[0, 0], [1, 0 :: real]] = length [0, 1 :: real] \<and>
   map length [[0, 0], [1, 0 :: real]] = [2, 2]"
  using getOutput_shape [of "stub_lib euler_odeint" "[0, 0]"
      "new_state (ODESystemSimulator dX_dt 2) 0" "[0, 1]" "[[0, 0], [1, 0]]"]
    euler_shape_contract
  by (simp add: example_state stub_lib_def euler_example)

section \<open>getOutput: initial conditions of the wrong length\<close>

text \<open>
  Claim C9. Whenever the initial conditions do not have \<open>systemSize\<close> components,
  building the diagnostic message adds a string and a list, which raises \<open>TypeError\<close>:
  \<open>getOutput\<close> ends with that exception and leaves the state as it found it, so nothing
  has been printed and the solver has not been invoked, whichever solver it is.
\<close>

theorem getOutput_mismatch_TypeError_before_solver:
  "int (length initialConditions) \<noteq> systemSize (self s) \<Longrightarrow>
     getOutput L initialConditions t s = (Inl TypeError, s)"
  by (simp add: getOutput_def diagnostic_def and_then_def)

theorem getOutput_mismatch_TypeError_before_solver_witness:
  "int (length [4 :: real, 23, 1]) \<noteq> 2 \<and>
   getOutput (stub_lib euler_odeint) [4, 23, 1] [0, 1] (new_state (ODESystemSimulator dX_dt 2) 0) =
     (Inl TypeError, new_state (ODESystemSimulator dX_dt 2) 0)"
  using getOutput_mismatch_TypeError_before_solver [of "[4, 23, 1]"
      "new_state (ODESystemSimulator dX_dt 2) 0" "stub_lib euler_odeint" "[0, 1]"]
  by (simp add: example_state)

text \<open>
  Claim C2. The specification asks for a \<open>DimensionMismatch\<close> error when the lengths
  differ. The program has the length check and a message for it, but the message is built
  by adding a string and a list: on \<^verbatim>\<open>ODESystemSimulator(dX_dt, 2).getOutput([1], [0, 1])\<close>
  the call ends with \<open>TypeError\<close>, and no dimension error is reported or printed.
\<close>

theorem getOutput_one_component_for_two_raises_TypeError:
  "getOutput (stub_lib euler_odeint) [1] [0, 1] (new_state (ODESystemSimulator dX_dt 2) 0) =
     (Inl TypeError, new_state (ODESystemSimulator dX_dt 2) 0)"
  by (simp add: getOutput_def diagnostic_def and_then_def example_state)

section \<open>getOutput: determinism, the single-time grid, solver failures\<close>

text \<open>
  Claim C5. With a solver whose result does not depend on its own state, the result of
  \<open>getOutput\<close> is determined by the stored vector field, the stored size, the initial
  conditions and the time grid: two calls with these equal return the same, whatever has
  been printed, drawn or solved before.
\<close>

theorem getOutput_deterministic:
  assumes "deterministic (odeint L)" and "self s1 = self s2"
  shows "fst (getOutput L initialConditions t s1) = fst (getOutput L initialConditions t s2)"
proof (cases "int (length initialConditions) = systemSize (self s1)")
  case True
  then have "int (length initialConditions) = systemSize (self s2)"
    using assms(2) by simp
  with True show ?thesis
    using assms unfolding deterministic_def by (simp add: getOutput_match)
next
  case False
  then have "int (length initialConditions) \<noteq> systemSize (self s2)"
    using assms(2) by simp
  with False show ?thesis by (simp add: getOutput_mismatch)
qed

theorem getOutput_deterministic_witness:
  "deterministic euler_odeint \<and>
   fst (getOutput (stub_lib euler_odeint) [0, 0] [0, 1]
          (new_state (ODESystemSimulator dX_dt 2) 0)) =
   fst (getOutput (stub_lib euler_odeint) [0, 0] [0, 1]
          ((new_state (ODESystemSimulator dX_dt 2) 7)\<lparr>stdout := [PStr ''earlier'']\<rparr>))"
  using getOutput_deterministic [of "stub_lib euler_odeint"
      "new_state (ODESystemSimulator dX_dt 2) 0"
      "(new_state (ODESystemSimulator dX_dt 2) 7)\<lparr>stdout := [PStr ''earlier'']\<rparr>"
      "[0, 0]" "[0, 1]"]
    euler_deterministic
  by (simp add: example_state stub_lib_def)

text \<open>
  Claim C6. For initial conditions of the right length and a time grid of one element,
  when the solver returns a table (of the shape and with the first row its contract
  gives), \<open>getOutput\<close> returns a table of exactly one row, and that row is the initial
  conditions.
\<close>

theorem getOutput_single_time:
  assumes "shape_contract (odeint L)" and "initial_row_contract (odeint L)"
    and "int (length initialConditions) = systemSize (self s)"
    and "fst (odeint L (systemFunction (self s)) initialConditions [t0] (solver s)) = Inr X"
  shows "fst (getOutput L initialConditions [t0] s) = Inr X \<and> length X = 1 \<and>
         X ! 0 = initialConditions"
proof -
  obtain h' where run:
    "odeint L (systemFunction (self s)) initialConditions [t0] (solver s) = (Inr X, h')"
    using assms(4)
    by (cases "odeint L (systemFunction (self s)) initialConditions [t0] (solver s)") simp
  have "length X = length [t0]"
    using assms(1) run unfolding shape_contract_def by blast
  moreover have "X ! 0 = initialConditions"
    using assms(2) run unfolding initial_row_contract_def by blast
  moreover have "fst (getOutput L initialConditions [t0] s) = Inr X"
    using assms(3,4) by (simp add: getOutput_match)
  ultimately show ?thesis by simp
qed

theorem getOutput_single_time_witness:
  "shape_contract euler_odeint \<and> initial_row_contract euler_odeint \<and>
   fst (getOutput (stub_lib euler_odeint) [8, 8] [5]
          (new_state (ODESystemSimulator dX_dt 2) 0)) = Inr [[8, 8]] \<and>
   length [[8, 8 :: real]] = 1 \<and> [[8, 8 :: real]] ! 0 = [8, 8]"
  using getOutput_single_time [of "stub_lib euler_odeint" "[8, 8]"
      "new_state (ODESystemSimulator dX_dt 2) 0" 5 "[[8, 8]]"]
    euler_shape_contract euler_initial_row_contract
  by (simp add: example_state stub_lib_def euler_odeint_def)

text \<open>
  Claim C7, as the program has it. \<open>getOutput\<close> has no failure detection of its own.
  With initial conditions of the right length it invokes the solver once and hands its
  outcome on: an exception of the solver is the exception of \<open>getOutput\<close>, a table of the
  solver is returned as it is, the solver's state is the one a single invocation leaves
  (there is no second attempt), and nothing is printed or drawn.
\<close>

theorem getOutput_hands_solver_outcome_on:
  assumes "int (length initialConditions) = systemSize (self s)"
  shows "fst (getOutput L initialConditions t s) =
           fst (odeint L (systemFunction (self s)) initialConditions t (solver s)) \<and>
         solver (snd (getOutput L initialConditions t s)) =
           snd (odeint L (systemFunction (self s)) initialConditions t (solver s)) \<and>
         stdout (snd (getOutput L initialConditions t s)) = stdout s \<and>
         canvas (snd (getOutput L initialConditions t s)) = canvas s"
  using assms by (simp add: getOutput_match)

theorem getOutput_hands_solver_outcome_on_witness:
  "int (length [0 :: real, 0]) = 2 \<and>
   fst (getOutput (stub_lib euler_odeint) [0, 0] [0, 1]
          (new_state (ODESystemSimulator dX_dt 2) 0)) = Inr [[0, 0], [1, 0]] \<and>
   solver (snd (getOutput (stub_lib euler_odeint) [0, 0] [0, 1]
          (new_state (ODESystemSimulator dX_dt 2) 0))) = Suc 0"
  using getOutput_hands_solver_outcome_on [of "[0, 0]"
      "new_state (ODESystemSimulator dX_dt 2) 0" "stub_lib euler_odeint" "[0, 1]"]
  by (simp add: example_state stub_lib_def euler_example)

text \<open>
  Claim C7, as the specification states it, fails. \<^verbatim>\<open>odeint\<close> reports an integration
  that did not succeed in the dictionary it returns under \<^verbatim>\<open>full_output\<close> and as a
  warning, and returns the table it has; \<open>getOutput\<close> calls it without \<^verbatim>\<open>full_output\<close>
  and looks at nothing but the table. So a solver that gives up after the initial row,
  warns, and returns the other rows filled with zeros makes \<open>getOutput\<close> return that
  table, with no exception.
\<close>

theorem getOutput_returns_zero_filled_table:
  "getOutput (stub_lib giving_up_odeint) [8, 8] [0, 1, 2]
     (new_state (ODESystemSimulator dX_dt 2) []) =
   (Inr [[8, 8], [0, 0], [0, 0]],
    new_state (ODESystemSimulator dX_dt 2) [''ODEintWarning: Excess work done on this call''])"
  by (simp add: getOutput_def new_state_def ODESystemSimulator_def stub_lib_def
      giving_up_odeint_def numeral_3_eq_3)

section \<open>Facts about the views\<close>

lemma length_linspace_points: "length (linspace_points start stop n) = n"
  by (simp add: linspace_points_def)

lemma nth_linspace_points:
  "i < n \<Longrightarrow>
     linspace_points start stop n ! i = start + real i * ((stop - start) / real (n - 1))"
  by (auto simp: linspace_points_def)

lemma linspace_100000: "linspace start stop 100000 = Inr (linspace_points start stop 100000)"
  by (simp add: linspace_def)

lemma getOutput_self: "self (snd (getOutput L initialConditions t s)) = self s"
  by (simp add: getOutput_def diagnostic_TypeError split: prod.splits)

lemma plot_variables_frame:
  "self (snd (plot_variables t X Xs s)) = self s \<and>
   solver (snd (plot_variables t X Xs s)) = solver s \<and>
   stdout (snd (plot_variables t X Xs s)) = stdout s"
  by (induction Xs arbitrary: s) (auto split: sum.splits)

lemma concentrations_plot_frame:
  "self (snd (concentrations_plot t Xs r)) = self (snd r) \<and>
   solver (snd (concentrations_plot t Xs r)) = solver (snd r) \<and>
   stdout (snd (concentrations_plot t Xs r)) = stdout (snd r)"
proof (cases r)
  case (Pair res s1)
  show ?thesis
  proof (cases res)
    case (Inl e)
    with Pair show ?thesis by (simp add: concentrations_plot_def)
  next
    case (Inr X)
    let ?s = "s1\<lparr>canvas := canvas s1 @ [Figure]\<rparr>"
    from plot_variables_frame [of t X Xs ?s]
    show ?thesis using Pair Inr
      by (cases "plot_variables t X Xs ?s") (auto simp: concentrations_plot_def split: sum.splits)
  qed
qed

lemma concentrations_self: "self (snd (concentrations L endTime Xs s)) = self s"
  by (simp add: concentrations_def linspace_100000 concentrations_plot_frame getOutput_self)

lemma plot_family_self: "self (snd (plot_family L t X1 X2 lw ics s)) = self s"
proof (induction ics arbitrary: lw s)
  case Nil
  then show ?case by simp
next
  case (Cons ic ics)
  obtain res s1 where run: "getOutput L ic t s = (res, s1)"
    by (cases "getOutput L ic t s")
  then have s1: "self s1 = self s"
    using getOutput_self [of L ic t s] by simp
  show ?case
  proof (cases res)
    case (Inl e)
    with run s1 show ?thesis by simp
  next
    case (Inr X)
    with run s1 Cons.IH show ?thesis
      by (simp split: sum.splits)
  qed
qed

lemma draw_directions_self: "self (snd (draw_directions L sp X1 X2 s)) = self s"
  by (simp add: draw_directions_def Let_def split: sum.splits prod.splits)

lemma trajectories_self: "self (snd (trajectories L ics sp endTime X1 X2 s)) = self s"
proof -
  let ?s0 = "s\<lparr>canvas := canvas s @ [Figure]\<rparr>"
  let ?t = "linspace_points 0 endTime 100000"
  let ?r = "plot_family L ?t X1 X2 (1.5 ^ length ics) ics ?s0"
  have "self (snd ?r) = self s" by (simp add: plot_family_self)
  then show ?thesis
    by (cases ?r) (auto simp: trajectories_def Let_def linspace_100000 draw_directions_self
        split: sum.splits)
qed

lemma perform_self: "self (perform L c s) = self s"
  by (cases c) (simp_all add: getOutput_self concentrations_self trajectories_self)

lemma script_self: "self (snd (script L h)) = ODESystemSimulator dX_dt 2"
proof -
  let ?s0 = "new_state (ODESystemSimulator dX_dt 2) h"
  have s0: "self ?s0 = ODESystemSimulator dX_dt 2" by (simp add: new_state_def)
  obtain res s1 where run: "concentrations L 200 [0, 1] ?s0 = (res, s1)"
    by (cases "concentrations L 200 [0, 1] ?s0")
  then have "self s1 = ODESystemSimulator dX_dt 2"
    using concentrations_self [of L 200 "[0, 1]" ?s0] s0 by simp
  with run show ?thesis
    by (cases res) (simp_all add: script_def trajectories_self)
qed

text \<open>
  \<open>getOutput\<close> on objects is \<open>getOutput\<close> on what the objects hold, with the solver
  working on the objects themselves.
\<close>

lemma getOutput_refs_getOutput:
  "getOutput_refs R ic t r =
     getOutput (stub_lib (\<lambda>f y0 times. R f ic t)) (objects (solver r) ic) (objects (solver r) t) r"
  by (simp add: getOutput_refs_def getOutput_def stub_lib_def diagnostic_TypeError)

lemma getOutput_refs_cases:
  "getOutput_refs R ic t r = (Inl TypeError, r) \<or>
   getOutput_refs R ic t r =
     (fst (R (systemFunction (self r)) ic t (solver r)),
      r\<lparr>solver := snd (R (systemFunction (self r)) ic t (solver r))\<rparr>)"
proof (cases "int (length (objects (solver r) ic)) = systemSize (self r)")
  case True
  then show ?thesis
    by (simp add: getOutput_refs_getOutput getOutput_match stub_lib_def)
next
  case False
  then show ?thesis
    by (simp add: getOutput_refs_getOutput getOutput_mismatch)
qed

lemma euler_refs_leaves_arguments: "leaves_arguments euler_refs"
  by (simp add: leaves_arguments_def euler_refs_def)

text \<open>
  A solver that writes to the list it was handed does change the caller's object:
  \<open>getOutput\<close> passes the object itself and makes no copy.
\<close>

lemma getOutput_refs_overwriting_solver:
  "objects (solver (snd (getOutput_refs overwriting_refs 0 1
      (new_state (ODESystemSimulator dX_dt 2) two_lists)))) 0 = [0, 0]"
  by (simp add: getOutput_refs_def example_state overwriting_refs_def two_lists_def
      diagnostic_TypeError)

lemma map_err_Inr:
  "map_err f xs = Inr ys \<Longrightarrow>
     length ys = length xs \<and> (\<forall>i < length xs. f (xs ! i) = Inr (ys ! i))"
proof (induction xs arbitrary: ys)
  case Nil
  then show ?case by simp
next
  case (Cons x xs)
  from Cons.prems obtain y ys' where fx: "f x = Inr y" and rest: "map_err f xs = Inr ys'"
    and ys: "ys = y # ys'"
    by (auto split: sum.splits)
  from Cons.IH [OF rest] have len: "length ys' = length xs"
    and nth: "\<forall>i < length xs. f (xs ! i) = Inr (ys' ! i)" by simp_all
  show ?case
  proof (intro conjI allI impI)
    show "length ys = length (x # xs)" using ys len by simp
  next
    fix i assume "i < length (x # xs)"
    then show "f ((x # xs) ! i) = Inr (ys ! i)"
      using fx nth ys by (cases i) simp_all
  qed
qed

lemma eval_point_Inr:
  "eval_point f t0 p = Inr d \<Longrightarrow> body f [fst p, snd p] t0 = Inr [fst d, snd d]"
  by (auto simp: eval_point_def split: sum.splits list.splits)

text \<open>An item of the result and the array it is.\<close>

lemma component_value:
  assumes "resolve c [x, y] og = Inr v" and "component_ref p og = Inr r"
  shows "(\<exists>k. og = Created k \<and> r = Local k \<and> v = c ! k) \<or> (r = GridX \<and> v = x) \<or>
         (r = GridY \<and> v = y) \<or> r = Number p"
  using assms by (cases og) (auto simp: py_index_def split: if_splits)

lemma body_two_items:
  assumes "body f inputs t = Inr [dx, dy]" and "returned f = [o1, o2]"
  shows "\<exists>c. resolve c inputs o1 = Inr dx \<and> resolve c inputs o2 = Inr dy"
  using assms by (auto simp: body_def split: sum.splits)

lemma call_on_grid_Inr:
  assumes "call_on_grid f A = Inr (DX, DY, A')"
  shows "\<exists>t0 D o1 o2. t_default f = Some t0 \<and>
           map_err (\<lambda>row. map_err (eval_point f t0) (zip (fst row) (snd row)))
             (zip (A GridX) (A GridY)) = Inr D \<and>
           returned f = [o1, o2] \<and> component_ref 0 o1 = Inr DX \<and> component_ref 1 o2 = Inr DY \<and>
           A' = bind_created DY (map (map snd) D) (bind_created DX (map (map fst) D) A)"
  using assms
  by (auto simp: call_on_grid_def split: option.splits sum.splits list.splits)

lemma component_ref_not_Norm: "component_ref p og = Inr r \<Longrightarrow> r \<noteq> Norm"
  by (cases og) (auto split: if_splits)

lemma bind_created_grids:
  "bind_created r v A GridX = A GridX" "bind_created r v A GridY = A GridY"
  by (cases r; simp)+

lemma call_on_grid_point:
  assumes call: "call_on_grid f A = Inr (DX, DY, A')"
    and i: "i < length (A GridX)" "i < length (A GridY)"
    and j: "j < length (A GridX ! i)" "j < length (A GridY ! i)"
  shows "\<exists>t0. t_default f = Some t0 \<and>
           body f [A GridX ! i ! j, A GridY ! i ! j] t0 = Inr [A' DX ! i ! j, A' DY ! i ! j]"
    and "i < length (A' DX)" and "i < length (A' DY)"
    and "j < length (A' DX ! i)" and "j < length (A' DY ! i)"
    and "DX \<noteq> Norm" and "DY \<noteq> Norm"
    and "A' GridX = A GridX" and "A' GridY = A GridY"
proof -
  let ?x = "A GridX ! i ! j" and ?y = "A GridY ! i ! j"
  from call_on_grid_Inr [OF call] obtain t0 D o1 o2 where t0: "t_default f = Some t0"
    and D: "map_err (\<lambda>row. map_err (eval_point f t0) (zip (fst row) (snd row)))
              (zip (A GridX) (A GridY)) = Inr D"
    and ret: "returned f = [o1, o2]"
    and r1: "component_ref 0 o1 = Inr DX" and r2: "component_ref 1 o2 = Inr DY"
    and A': "A' = bind_created DY (map (map snd) D) (bind_created DX (map (map fst) D) A)"
    by blast
  from map_err_Inr [OF D] i
  have lenD: "length D = length (zip (A GridX) (A GridY))"
    and row: "map_err (eval_point f t0) (zip (A GridX ! i) (A GridY ! i)) = Inr (D ! i)"
    by auto
  from map_err_Inr [OF row] j
  have lenrow: "length (D ! i) = length (zip (A GridX ! i) (A GridY ! i))"
    and pt: "eval_point f t0 (?x, ?y) = Inr (D ! i ! j)"
    by auto
  have iD: "i < length D" using lenD i by simp
  have jD: "j < length (D ! i)" using lenrow j by simp
  let ?dx = "fst (D ! i ! j)" and ?dy = "snd (D ! i ! j)"
  have b: "body f [?x, ?y] t0 = Inr [?dx, ?dy]"
    using eval_point_Inr [OF pt] by simp
  from body_two_items [OF b ret] obtain c where c1: "resolve c [?x, ?y] o1 = Inr ?dx"
    and c2: "resolve c [?x, ?y] o2 = Inr ?dy" by blast
  note v1 = component_value [OF c1 r1] and v2 = component_value [OF c2 r2]
  show "DX \<noteq> Norm" "DY \<noteq> Norm"
    using r1 r2 by (simp_all add: component_ref_not_Norm)
  show "A' GridX = A GridX" "A' GridY = A GridY"
    using A' by (simp_all add: bind_created_grids)
  have DY_val: "A' DY ! i ! j = ?dy \<and> i < length (A' DY) \<and> j < length (A' DY ! i)"
    using v2 A' iD jD i j by (auto simp: bind_created_grids)
  have DX_val: "A' DX ! i ! j = ?dx \<and> i < length (A' DX) \<and> j < length (A' DX ! i)"
    using v1 v2 A' iD jD i j by (cases DY) (auto simp: bind_created_grids)
  show "i < length (A' DX)" "i < length (A' DY)" "j < length (A' DX ! i)" "j < length (A' DY ! i)"
    using DX_val DY_val by simp_all
  show "\<exists>t0. t_default f = Some t0 \<and>
           body f [?x, ?y] t0 = Inr [A' DX ! i ! j, A' DY ! i ! j]"
    using t0 b DX_val DY_val by simp
qed

lemma hypot_eq_0_iff: "hypot a b = 0 \<longleftrightarrow> a = 0 \<and> b = 0"
  by (simp add: hypot_def sum_power2_eq_zero_iff)

lemma direction_field_point:
  assumes "DX \<noteq> Norm" "DY \<noteq> Norm"
    and "i < length (A DX)" "i < length (A DY)" "j < length (A DX ! i)" "j < length (A DY ! i)"
  shows "direction_field DX DY A Norm ! i ! j =
           (if A DX ! i ! j = 0 \<and> A DY ! i ! j = 0 then 1 else hypot (A DX ! i ! j) (A DY ! i ! j))"
    and "DX \<noteq> DY \<Longrightarrow> direction_field DX DY A DX ! i ! j =
           A DX ! i ! j / direction_field DX DY A Norm ! i ! j"
    and "DX \<noteq> DY \<Longrightarrow> direction_field DX DY A DY ! i ! j =
           A DY ! i ! j / direction_field DX DY A Norm ! i ! j"
    and "DX = DY \<Longrightarrow> direction_field DX DY A DX ! i ! j =
           A DX ! i ! j / direction_field DX DY A Norm ! i ! j / direction_field DX DY A Norm ! i ! j"
  using assms
  by (auto simp: direction_field_def grid_map2_def Let_def hypot_eq_0_iff)

lemma linspace_2: "linspace 0 1 2 = Inr [0, 1]"
  by (simp add: linspace_def linspace_points_def numeral_2_eq_2)

lemma meshgrid_2: "meshgrid [0, 1] [0, 1] = ([[0, 1], [0, 1]], [[0, 0], [1, 1]])"
  by (simp add: meshgrid_def numeral_2_eq_2)

lemma run_on_grid_2:
  "run_on_empty_grid f t0 ((\<lambda>r. [])(GridX := [[0, 1], [0, 1]], GridY := [[0, 0], [1, 1]])) =
     Inr ()"
  by (simp add: run_on_empty_grid_def grid_points_def)

lemma both_fields: "t_default both = Some 0" "returned both = [Created 0, Created 0]"
  by (simp_all add: both_def)

lemma eval_point_both: "eval_point both t0 (x, y) = Inr (x - y, x - y)"
  by (simp add: eval_point_def body_both)

lemma both_call:
  "call_on_grid both ((\<lambda>r. [])(GridX := [[0, 1], [0, 1]], GridY := [[0, 0], [1, 1]])) =
     Inr (Local 0, Local 0,
          (\<lambda>r. [])(GridX := [[0, 1], [0, 1]], GridY := [[0, 0], [1, 1]], Local 0 := [[0, 1], [-1, 0]]))"
  by (simp add: call_on_grid_def run_on_grid_2 eval_point_both both_fields)

lemma both_field:
  "direction_field (Local 0) (Local 0)
     ((\<lambda>r. [])(GridX := [[0, 1], [0, 1]], GridY := [[0, 0], [1, 1]], Local 0 := [[0, 1], [-1, 0]])) =
   (\<lambda>r. [])(GridX := [[0, 1], [0, 1]], GridY := [[0, 0], [1, 1]],
      Norm := [[1, sqrt 2], [sqrt 2, 1]], Local 0 := [[0, 1/2], [-(1/2), 0]])"
  by (auto simp: direction_field_def grid_map2_def hypot_def Let_def fun_eq_iff field_simps)

text \<open>
  The function runs on a grid with no point too, and two numbers have no array of norms.
\<close>

lemma call_on_empty_grid_raises:
  assumes "t_default f = Some t0" and "grid_points A = []" and "eval_point f t0 (0, 0) = Inl e"
  shows "call_on_grid f A = Inl e"
  using assms by (simp add: call_on_grid_def run_on_empty_grid_def)

lemma normalise_two_numbers:
  assumes "call_on_grid f A = Inr (DX, DY, A')" and "returned f = [Constant a, Constant b]"
  shows "normalise DX DY A' = Inl TypeError"
  using assms
  by (auto simp: call_on_grid_def normalise_def split: option.splits sum.splits)

lemma meshgrid_shape:
  "length (fst (meshgrid x y)) = length y \<and> length (snd (meshgrid x y)) = length y \<and>
     (\<forall>i < length y. length (fst (meshgrid x y) ! i) = length x \<and>
                      length (snd (meshgrid x y) ! i) = length x)"
  by (auto simp: meshgrid_def)

lemma draw_directions_needs_default:
  assumes "t_default (systemFunction (self s)) = None"
  shows "\<exists>e. fst (draw_directions L sp X1 X2 s) = Inl e"
  using assms
  by (auto simp: draw_directions_def Let_def call_on_grid_def split: sum.splits prod.splits)

lemma trajectories_needs_default:
  assumes "t_default (systemFunction (self s)) = None"
  shows "\<exists>e. fst (trajectories L ics sp endTime X1 X2 s) = Inl e"
proof -
  let ?s0 = "s\<lparr>canvas := canvas s @ [Figure]\<rparr>"
  let ?t = "linspace_points 0 endTime 100000"
  let ?r = "plot_family L ?t X1 X2 (1.5 ^ length ics) ics ?s0"
  have self_r: "self (snd ?r) = self s" by (simp add: plot_family_self)
  show ?thesis
  proof (cases ?r)
    case (Pair res s1)
    with self_r have "t_default (systemFunction (self s1)) = None"
      using assms by simp
    from draw_directions_needs_default [OF this, of L sp X1 X2] Pair show ?thesis
      by (cases res) (auto simp: trajectories_def Let_def linspace_100000)
  qed
qed

lemma draw_directions_Inr:
  assumes "fst (draw_directions L sp X1 X2 s) = Inr u"
  shows "\<exists>x y DX DY A. 0 \<le> sp \<and> length x = nat sp \<and> length y = nat sp \<and>
           call_on_grid (systemFunction (self s))
             ((\<lambda>r. [])(GridX := fst (meshgrid x y), GridY := snd (meshgrid x y))) =
             Inr (DX, DY, A)"
proof -
  let ?s1 = "s\<lparr>canvas := canvas s @ [YLimBottom 0]\<rparr>"
  let ?ymax = "ylim_top L (canvas ?s1)"
  let ?s2 = "?s1\<lparr>canvas := canvas ?s1 @ [XLimLeft 0]\<rparr>"
  let ?xmax = "xlim_top L (canvas ?s2)"
  let ?x = "linspace_points 0 ?xmax (nat sp)"
  let ?y = "linspace_points 0 ?ymax (nat sp)"
  have sp: "0 \<le> sp"
    using assms by (auto simp: draw_directions_def Let_def linspace_def split: if_splits)
  then have lx: "linspace 0 ?xmax sp = Inr ?x" and ly: "linspace 0 ?ymax sp = Inr ?y"
    by (simp_all add: linspace_def)
  from assms lx ly obtain DX DY A where
    "call_on_grid (systemFunction (self s))
       ((\<lambda>r. [])(GridX := fst (meshgrid ?x ?y), GridY := snd (meshgrid ?x ?y))) = Inr (DX, DY, A)"
    by (auto simp: draw_directions_def Let_def split: sum.splits prod.splits)
  with sp show ?thesis
    by (intro exI [of _ ?x] exI [of _ ?y] exI [of _ DX] exI [of _ DY] exI [of _ A])
       (simp add: length_linspace_points)
qed

lemma trajectories_Inr:
  assumes "fst (trajectories L ics sp endTime X1 X2 s) = Inr u"
  shows "\<exists>s1. self s1 = self s \<and> fst (draw_directions L sp X1 X2 s1) = Inr u"
proof -
  let ?s0 = "s\<lparr>canvas := canvas s @ [Figure]\<rparr>"
  let ?t = "linspace_points 0 endTime 100000"
  let ?r = "plot_family L ?t X1 X2 (1.5 ^ length ics) ics ?s0"
  have "self (snd ?r) = self s" by (simp add: plot_family_self)
  with assms show ?thesis
    by (cases ?r) (auto simp: trajectories_def Let_def linspace_100000 split: sum.splits)
qed

lemma dX_dt_fields: "t_default dX_dt = Some 0" "returned dX_dt = [Created 0, Created 1]"
  by (simp_all add: dX_dt_def)

lemma eval_point_dX_dt:
  "eval_point dX_dt t0 (X, Y) =
     Inr (1 + 0.02 * X\<^sup>2 * Y - 2 * X - 0.04 * X, 2 * X - 0.02 * X\<^sup>2 * Y)"
  by (simp add: eval_point_def body_dX_dt)

lemma trajectories_example:
  "fst (trajectories (stub_lib euler_odeint) [] 2 10 0 1
          (new_state (ODESystemSimulator dX_dt 2) 0)) = Inr ()"
  by (simp add: trajectories_def linspace_100000 example_state draw_directions_def Let_def
      stub_lib_def linspace_2 meshgrid_2 call_on_grid_def run_on_grid_2 eval_point_dX_dt
      dX_dt_fields normalise_def)

lemma getOutput_required_t_example:
  "fst (getOutput (stub_lib euler_odeint) [0, 0] [0, 1]
          (new_state (ODESystemSimulator dX_dt_required_t 2) 0)) = Inr [[0, 0], [1, 0]]"
  by (simp add: getOutput_def example_state stub_lib_def euler_odeint_def
      body_dX_dt_required_t body_dX_dt)

section \<open>The direction field\<close>

text \<open>
  What the program does at a grid point, when the norms are an array. The stored
  function returns two derivatives \<open>dx\<close>, \<open>dy\<close> there, and the norm the arrays are
  divided by is never zero. Where
  \<open>dx = 0\<close> and \<open>dy = 0\<close> the norm is replaced by 1 and the arrow is \<open>(0, 0)\<close>.
  Elsewhere the norm is \<open>sqrt (dx\<^sup>2 + dy\<^sup>2)\<close>; when the two arrays the function returned
  are two objects, each derivative is divided by it, and when they are one object, that
  array is divided by it twice, once by \<^verbatim>\<open>DX /= M\<close> and once by \<^verbatim>\<open>DY /= M\<close>.
\<close>

lemma direction_field_normalisation:
  assumes call: "call_on_grid f A = Inr (DX, DY, A')"
    and i: "i < length (A GridX)" "i < length (A GridY)"
    and j: "j < length (A GridX ! i)" "j < length (A GridY ! i)"
  shows "\<exists>t0 dx dy. t_default f = Some t0 \<and>
           body f [A GridX ! i ! j, A GridY ! i ! j] t0 = Inr [dx, dy] \<and>
           direction_field DX DY A' Norm ! i ! j \<noteq> 0 \<and>
           (if dx = 0 \<and> dy = 0
            then direction_field DX DY A' Norm ! i ! j = 1 \<and>
                 direction_field DX DY A' DX ! i ! j = 0 \<and>
                 direction_field DX DY A' DY ! i ! j = 0
            else direction_field DX DY A' Norm ! i ! j = sqrt (dx\<^sup>2 + dy\<^sup>2) \<and>
                 (if DX = DY
                  then direction_field DX DY A' DX ! i ! j = dx / sqrt (dx\<^sup>2 + dy\<^sup>2) / sqrt (dx\<^sup>2 + dy\<^sup>2)
                  else direction_field DX DY A' DX ! i ! j = dx / sqrt (dx\<^sup>2 + dy\<^sup>2) \<and>
                       direction_field DX DY A' DY ! i ! j = dy / sqrt (dx\<^sup>2 + dy\<^sup>2)))"
proof -
  note pt = call_on_grid_point [OF call i j]
  from pt(1) obtain t0 where t0: "t_default f = Some t0"
    and b: "body f [A GridX ! i ! j, A GridY ! i ! j] t0 = Inr [A' DX ! i ! j, A' DY ! i ! j]"
    by blast
  note df = direction_field_point [OF pt(6,7) pt(2-5)]
  let ?dx = "A' DX ! i ! j" and ?dy = "A' DY ! i ! j"
  let ?N = "direction_field DX DY A' Norm ! i ! j"
  have N: "?N \<noteq> 0"
    using df(1) by (simp add: hypot_eq_0_iff)
  have zero: "?N = 1 \<and> direction_field DX DY A' DX ! i ! j = 0 \<and>
      direction_field DX DY A' DY ! i ! j = 0" if "?dx = 0 \<and> ?dy = 0"
    using df that by (cases "DX = DY") simp_all
  have nonzero: "?N = sqrt (?dx\<^sup>2 + ?dy\<^sup>2)" if "\<not> (?dx = 0 \<and> ?dy = 0)"
    using df(1) that by (simp add: hypot_def)
  have same: "direction_field DX DY A' DX ! i ! j = ?dx / ?N / ?N" if "DX = DY"
    using df(4) that by simp
  have distinct: "direction_field DX DY A' DX ! i ! j = ?dx / ?N \<and>
      direction_field DX DY A' DY ! i ! j = ?dy / ?N" if "DX \<noteq> DY"
    using df(2,3) that by simp
  show ?thesis
    using t0 b N zero nonzero same distinct
    by (intro exI [of _ t0] exI [of _ ?dx] exI [of _ ?dy]) auto
qed


text \<open>
  Claim C3. The claim asks for \<open>(dx, dy)\<close> divided by its norm at every point with a
  nonzero derivative. With the vector field
  \<^verbatim>\<open>def both(inputs, t=0): d = inputs[0] - inputs[1]; return [d, d]\<close>, on the grid of
  two by two points of the unit square, \<^verbatim>\<open>trajectories\<close> draws at the point \<open>(1, 0)\<close>,
  where the derivative is \<open>(1, 1)\<close> and the norm \<open>sqrt 2\<close>, the arrow \<open>(1/2, 1/2)\<close>: the
  one array has been divided by the norm twice. The points with the derivative \<open>(0, 0)\<close>
  have the norm 1 and the arrow \<open>(0, 0)\<close>.
\<close>

theorem trajectories_divides_shared_array_twice:
  "canvas (snd (trajectories (stub_lib euler_odeint) [] 2 1000 0 1
                  (new_state (ODESystemSimulator both 2) 0))) =
     [Figure, YLimBottom 0, XLimLeft 0, Title ''Trajectories and Directions'',
      Quiver [[0, 1], [0, 1]] [[0, 0], [1, 1]] [[0, 1/2], [-(1/2), 0]] [[0, 1/2], [-(1/2), 0]]
        [[1, sqrt 2], [sqrt 2, 1]],
      XLabelVar 0, YLabelVar 1, Legend, GridOn, XLim 0 1, YLim 0 1, Show]"
  by (simp add: trajectories_def linspace_100000 draw_directions_def Let_def stub_lib_def
      example_state linspace_2 meshgrid_2 both_call normalise_def both_field)

section \<open>The concentration series\<close>

text \<open>
  Claim C4. For every end time, \<open>concentrations\<close> builds a grid of exactly 100000
  times, the \<open>i\<close>-th being \<open>i * endTime / 99999\<close> (so the first is 0, the last is
  \<open>endTime\<close> and the spacing is uniform), and what it does is determined by the outcome of
  \<open>getOutput\<close> on the all-zero list \<^verbatim>\<open>[0] * N\<close> and that grid. For \<open>N \<ge> 0\<close> the list has
  \<open>N\<close> components and the solver is invoked exactly once, with this list and this grid.
\<close>

theorem concentrations_grid_and_call:
  "\<exists>t. linspace 0 endTime 100000 = Inr t \<and> length t = 100000 \<and>
       t ! 0 = 0 \<and> t ! 99999 = endTime \<and>
       (\<forall>i < 100000. t ! i = real i * (endTime / 99999)) \<and>
       concentrations L endTime Xs s =
         concentrations_plot t Xs (getOutput L (replicate (nat (systemSize (self s))) 0) t s) \<and>
       (0 \<le> systemSize (self s) \<longrightarrow>
          int (length (replicate (nat (systemSize (self s))) (0 :: real))) = systemSize (self s) \<and>
          solver (snd (concentrations L endTime Xs s)) =
            snd (odeint L (systemFunction (self s)) (replicate (nat (systemSize (self s))) 0) t
                   (solver s)))"
proof -
  let ?t = "linspace_points 0 endTime 100000"
  have grid: "linspace 0 endTime 100000 = Inr ?t"
    by (rule linspace_100000)
  have len: "length ?t = 100000"
    by (rule length_linspace_points)
  have nth: "?t ! i = real i * (endTime / 99999)" if "i < 100000" for i
    using nth_linspace_points [OF that, of 0 endTime] by simp
  have first: "?t ! 0 = 0"
    using nth [of 0] by simp
  have last: "?t ! 99999 = endTime"
    using nth [of 99999] by simp
  have call: "concentrations L endTime Xs s =
         concentrations_plot ?t Xs (getOutput L (replicate (nat (systemSize (self s))) 0) ?t s)"
    by (simp add: concentrations_def grid)
  have once: "int (length (replicate (nat (systemSize (self s))) (0 :: real))) = systemSize (self s) \<and>
          solver (snd (concentrations L endTime Xs s)) =
            snd (odeint L (systemFunction (self s)) (replicate (nat (systemSize (self s))) 0) ?t
                   (solver s))" if "0 \<le> systemSize (self s)"
    using that by (simp add: call concentrations_plot_frame getOutput_match)
  from grid len first last nth call once show ?thesis by blast
qed

theorem concentrations_grid_and_call_witness:
  "\<exists>t. linspace 0 200 100000 = Inr t \<and> length t = 100000 \<and>
       t ! 50000 = 50000 * (200 / 99999) \<and>
       solver (snd (concentrations (stub_lib euler_odeint) 200 [0, 1]
                      (new_state (ODESystemSimulator dX_dt 2) 0))) =
         snd (euler_odeint dX_dt [0, 0] t 0)"
proof -
  let ?s = "new_state (ODESystemSimulator dX_dt 2) (0 :: nat)"
  from concentrations_grid_and_call [of 200 "stub_lib euler_odeint" "[0, 1]" ?s]
  obtain t where t: "linspace 0 200 100000 = Inr t" "length t = 100000"
    and nth: "\<forall>i < 100000. t ! i = real i * (200 / 99999)"
    and once: "0 \<le> systemSize (self ?s) \<longrightarrow>
          int (length (replicate (nat (systemSize (self ?s))) (0 :: real))) = systemSize (self ?s) \<and>
          solver (snd (concentrations (stub_lib euler_odeint) 200 [0, 1] ?s)) =
            snd (odeint (stub_lib euler_odeint) (systemFunction (self ?s))
                  (replicate (nat (systemSize (self ?s))) 0) t (solver ?s))"
    by blast
  from nth have "t ! 50000 = 50000 * (200 / 99999)"
    by simp
  moreover from once
  have "solver (snd (concentrations (stub_lib euler_odeint) 200 [0, 1] ?s)) =
          snd (euler_odeint dX_dt [0, 0] t 0)"
    by (simp add: example_state stub_lib_def numeral_2_eq_2)
  ultimately show ?thesis
    using t by blast
qed

section \<open>The configuration of the simulator\<close>

text \<open>
  Claim C8. The object holds the vector field and the size, set by the constructor, and
  nothing else. Whatever calls of \<open>getOutput\<close>, \<open>concentrations\<close> and \<open>trajectories\<close>
  are made on it, in whatever order and whether they raise or not, the object after them
  is the object before them; so it is after the script. And \<open>getOutput\<close> does not write
  to the objects \<^verbatim>\<open>initialConditions\<close> and \<^verbatim>\<open>t\<close> of its caller: it leaves the store of
  objects either as it found it, or as the one call of the solver on these two objects
  left it; so with a solver that leaves the lists it is handed as they are, as \<^verbatim>\<open>odeint\<close>
  does, both objects hold after the call what they held before.
\<close>

theorem configuration_never_mutated:
  "self (perform_all L cs s) = self s \<and>
   self (perform_all L cs (new_state (ODESystemSimulator f n) h)) =
     \<lparr>systemFunction = f, systemSize = n\<rparr> \<and>
   self (snd (script L h)) = \<lparr>systemFunction = dX_dt, systemSize = 2\<rparr> \<and>
   self (snd (getOutput_refs R initialConditions t r)) = self r \<and>
   (solver (snd (getOutput_refs R initialConditions t r)) = solver r \<or>
    solver (snd (getOutput_refs R initialConditions t r)) =
      snd (R (systemFunction (self r)) initialConditions t (solver r))) \<and>
   (leaves_arguments R \<longrightarrow>
      objects (solver (snd (getOutput_refs R initialConditions t r))) initialConditions =
        objects (solver r) initialConditions \<and>
      objects (solver (snd (getOutput_refs R initialConditions t r))) t =
        objects (solver r) t)"
proof -
  have inv: "self (perform_all L cs s') = self s'" for s'
    by (induction cs arbitrary: s') (simp_all add: perform_self)
  have config: "self (perform_all L cs s) = self s \<and>
      self (perform_all L cs (new_state (ODESystemSimulator f n) h)) =
        \<lparr>systemFunction = f, systemSize = n\<rparr> \<and>
      self (snd (script L h)) = \<lparr>systemFunction = dX_dt, systemSize = 2\<rparr>"
    using inv [of s] inv [of "new_state (ODESystemSimulator f n) h"] script_self [of L h]
    by (simp add: new_state_def ODESystemSimulator_def)
  let ?after = "snd (getOutput_refs R initialConditions t r)"
  let ?call = "R (systemFunction (self r)) initialConditions t (solver r)"
  have self_r: "self ?after = self r"
    by (simp add: getOutput_refs_getOutput getOutput_self)
  have writes: "solver ?after = solver r \<or> solver ?after = snd ?call"
    using getOutput_refs_cases [of R initialConditions t r] by auto
  have kept: "objects (solver ?after) initialConditions = objects (solver r) initialConditions \<and>
      objects (solver ?after) t = objects (solver r) t" if "leaves_arguments R"
    using writes that unfolding leaves_arguments_def by auto
  from config self_r writes kept show ?thesis
    by blast
qed

theorem configuration_never_mutated_witness:
  "self (perform_all (stub_lib euler_odeint)
           [GetOutput [0, 0] [0, 1], GetOutput [1] [0], Trajectories [] 2 10 0 1,
            Concentrations 200 [0, 1]]
           (new_state (ODESystemSimulator dX_dt 2) 0)) =
     \<lparr>systemFunction = dX_dt, systemSize = 2\<rparr> \<and>
   leaves_arguments euler_refs \<and>
   objects two_lists 0 = [8, 8] \<and> objects two_lists 1 = [0, 1] \<and>
   objects (solver (snd (getOutput_refs euler_refs 0 1
      (new_state (ODESystemSimulator dX_dt 2) two_lists)))) 0 = [8, 8] \<and>
   objects (solver (snd (getOutput_refs euler_refs 0 1
      (new_state (ODESystemSimulator dX_dt 2) two_lists)))) 1 = [0, 1]"
  using configuration_never_mutated [of "stub_lib euler_odeint"
      "[GetOutput [0, 0] [0, 1], GetOutput [1] [0], Trajectories [] 2 10 0 1,
        Concentrations 200 [0, 1]]"
      "new_state (ODESystemSimulator dX_dt 2) 0" dX_dt 2 0
      euler_refs 0 1 "new_state (ODESystemSimulator dX_dt 2) two_lists"]
    euler_refs_leaves_arguments
  by (simp add: example_state two_lists_def)

section \<open>The call of the vector field in trajectories\<close>

text \<open>
  Claim C10. \<open>trajectories\<close> calls the stored function with the pair of grids alone and
  no time. So a vector field whose \<^verbatim>\<open>t\<close> has no default makes \<open>trajectories\<close> raise,
  whatever its other arguments are. And when \<open>trajectories\<close> returns, the field has a
  default for \<^verbatim>\<open>t\<close> and, at every point of the \<open>samplingPoints\<close> by \<open>samplingPoints\<close>
  grid, given the two coordinates as its state it returned exactly two derivatives.
\<close>

theorem trajectories_calls_field_without_time:
  "(t_default (systemFunction (self s)) = None \<longrightarrow>
      (\<exists>e. fst (trajectories L ics sp endTime X1 X2 s) = Inl e)) \<and>
   (fst (trajectories L ics sp endTime X1 X2 s) = Inr u \<longrightarrow>
      (\<exists>t0 X Y. t_default (systemFunction (self s)) = Some t0 \<and> 0 \<le> sp \<and>
         length X = nat sp \<and> length Y = nat sp \<and>
         (\<forall>i < nat sp. length (X ! i) = nat sp \<and> length (Y ! i) = nat sp \<and>
            (\<forall>j < nat sp. \<exists>dx dy.
               body (systemFunction (self s)) [X ! i ! j, Y ! i ! j] t0 = Inr [dx, dy]))))"
proof (intro conjI impI)
  assume "t_default (systemFunction (self s)) = None"
  then show "\<exists>e. fst (trajectories L ics sp endTime X1 X2 s) = Inl e"
    by (rule trajectories_needs_default)
next
  assume ok: "fst (trajectories L ics sp endTime X1 X2 s) = Inr u"
  let ?f = "systemFunction (self s)"
  from trajectories_Inr [OF ok] obtain s1 where s1: "self s1 = self s"
    and dd: "fst (draw_directions L sp X1 X2 s1) = Inr u"
    by blast
  from draw_directions_Inr [OF dd] s1 obtain x y DX DY A where sp: "0 \<le> sp"
    and x: "length x = nat sp" and y: "length y = nat sp"
    and call: "call_on_grid ?f
        ((\<lambda>r. [])(GridX := fst (meshgrid x y), GridY := snd (meshgrid x y))) = Inr (DX, DY, A)"
    by auto
  let ?X = "fst (meshgrid x y)" and ?Y = "snd (meshgrid x y)"
  let ?A = "(\<lambda>r. [])(GridX := ?X, GridY := ?Y)"
  have shape: "length ?X = nat sp" "length ?Y = nat sp"
    "\<And>i. i < nat sp \<Longrightarrow> length (?X ! i) = nat sp \<and> length (?Y ! i) = nat sp"
    using meshgrid_shape [of x y] x y by simp_all
  from call obtain t0 where t0: "t_default ?f = Some t0"
    by (auto simp: call_on_grid_def split: option.splits)
  have pt: "\<exists>dx dy. body ?f [?X ! i ! j, ?Y ! i ! j] t0 = Inr [dx, dy]"
    if "i < nat sp" "j < nat sp" for i j
  proof -
    from that shape
    have "i < length (?A GridX)" "i < length (?A GridY)"
      "j < length (?A GridX ! i)" "j < length (?A GridY ! i)"
      by simp_all
    from call_on_grid_point(1) [OF call this] t0 show ?thesis
      by auto
  qed
  show "\<exists>t0 X Y. t_default ?f = Some t0 \<and> 0 \<le> sp \<and>
         length X = nat sp \<and> length Y = nat sp \<and>
         (\<forall>i < nat sp. length (X ! i) = nat sp \<and> length (Y ! i) = nat sp \<and>
            (\<forall>j < nat sp. \<exists>dx dy. body ?f [X ! i ! j, Y ! i ! j] t0 = Inr [dx, dy]))"
    using t0 sp shape pt
    by (intro exI [of _ t0] exI [of _ ?X] exI [of _ ?Y]) simp
qed

text \<open>
  An instance: with \<^verbatim>\<open>t\<close> required, \<open>getOutput\<close> returns a table and \<open>trajectories\<close>
  raises; with the script's field, \<open>trajectories\<close> returns.
\<close>

theorem trajectories_calls_field_without_time_witness:
  "t_default dX_dt_required_t = None \<and>
   fst (getOutput (stub_lib euler_odeint) [0, 0] [0, 1]
          (new_state (ODESystemSimulator dX_dt_required_t 2) 0)) = Inr [[0, 0], [1, 0]] \<and>
   (\<exists>e. fst (trajectories (stub_lib euler_odeint) [] 2 10 0 1
               (new_state (ODESystemSimulator dX_dt_required_t 2) 0)) = Inl e) \<and>
   fst (trajectories (stub_lib euler_odeint) [] 2 10 0 1
          (new_state (ODESystemSimulator dX_dt 2) 0)) = Inr () \<and>
   t_default dX_dt = Some 0"
  using trajectories_calls_field_without_time [of
      "new_state (ODESystemSimulator dX_dt_required_t 2) 0" "stub_lib euler_odeint"
      "[]" 2 10 0 1 "()"]
    getOutput_required_t_example trajectories_example
  by (simp add: example_state dX_dt_required_t_def dX_dt_def)


end
